theory Spec2Isabelle
  imports Main
begin

section \<open>Strings and values of the host language\<close>

text \<open>
  The screen \<^verbatim>\<open>src/pages/EntryEditScreen.tsx\<close> is TypeScript. A string is modelled as
  a \<open>string\<close> whose characters stand for the code units \<open>0 .. 255\<close>; every literal of
  the source lies in that range (the Portuguese notices use Latin-1 letters, written here
  with their code). A value that may be \<^verbatim>\<open>null\<close> or \<^verbatim>\<open>undefined\<close> is an \<open>option\<close>.
\<close>

text \<open>Truthiness of a nullable string: \<^verbatim>\<open>null\<close>, \<^verbatim>\<open>undefined\<close> and \<^verbatim>\<open>""\<close> are falsy.\<close>

fun truthy :: "string option \<Rightarrow> bool" where
  "truthy None = False"
| "truthy (Some s) = (s \<noteq> [])"

text \<open>\<^verbatim>\<open>a || b\<close> on a nullable string \<open>a\<close> and a string \<open>b\<close>.\<close>

fun or_else :: "string option \<Rightarrow> string \<Rightarrow> string" where
  "or_else None d = d"
| "or_else (Some s) d = (if s = [] then d else s)"

text \<open>
  \<^verbatim>\<open>s.split(c)\<close> for a separator of one character: the pieces between the separators,
  in order; the result always has at least one piece.
\<close>

fun js_split :: "char \<Rightarrow> string \<Rightarrow> string list" where
  "js_split c [] = [[]]"
| "js_split c (x # xs) =
     (let r = js_split c xs in
      if x = c then [] # r else (x # hd r) # tl r)"

text \<open>\<^verbatim>\<open>xs.pop()\<close> read for its value: the last element, \<^verbatim>\<open>undefined\<close> on an empty array.\<close>

fun js_pop :: "'a list \<Rightarrow> 'a option" where
  "js_pop [] = None"
| "js_pop (x # xs) = Some (last (x # xs))"

text \<open>
  \<^verbatim>\<open>s.trim()\<close>: the white space and line terminators of ECMAScript among the code
  units \<open>0 .. 255\<close> are TAB, LF, VT, FF, CR, SPACE and NBSP.
\<close>

definition is_ws :: "char \<Rightarrow> bool" where
  "is_ws c = (of_char c \<in> {9, 10, 11, 12, 13, 32, 160 :: nat})"

definition js_trim :: "string \<Rightarrow> string" where
  "js_trim s = rev (dropWhile is_ws (rev (dropWhile is_ws s)))"

text \<open>
  The text of an integral number, as a template literal renders \<^verbatim>\<open>Date.now()\<close>:
  decimal digits, with a minus sign below zero.
\<close>

definition digit_char :: "nat \<Rightarrow> char" where
  "digit_char d = ''0123456789'' ! d"

fun nat_to_string :: "nat \<Rightarrow> string" where
  "nat_to_string n =
     (if n < 10 then [digit_char n]
      else nat_to_string (n div 10) @ [digit_char (n mod 10)])"

declare nat_to_string.simps [simp del]

definition number_to_string :: "int \<Rightarrow> string" where
  "number_to_string i =
     (if i < 0 then CHR ''-'' # nat_to_string (nat (- i)) else nat_to_string (nat i))"

section \<open>Data of the edit screen\<close>

text \<open>An asset of the picker result, with the fields that \<^verbatim>\<open>pickMedia\<close> reads.\<close>

record asset =
  asset_fileName :: "string option"
  asset_type :: "string option"
  asset_mimeType :: "string option"
  asset_base64 :: "string option"

text \<open>The result of \<^verbatim>\<open>launchImageLibraryAsync\<close>: cancelled, or an array of assets.\<close>

datatype picker_result = Canceled | Picked "asset list"

text \<open>The component state held by \<^verbatim>\<open>useState\<close>, and the id of the entry being edited.\<close>

record screen =
  editingEntry_id :: "string option"
  title :: string
  content :: string
  media :: "string option"
  userId :: "string option"
  loading :: bool

text \<open>The object handed to \<^verbatim>\<open>upsert\<close>.\<close>

record payload =
  payload_id :: "string option"
  user_id :: string
  payload_title :: string
  payload_content :: string
  media_url :: "string option"

text \<open>
  What a call of the backend client gives back: no error, an error object with its
  message, or a rejected promise (an exception at the \<^verbatim>\<open>await\<close>).
\<close>

datatype response = Success | Failure string | Throws

text \<open>
  The calls the screen makes on its collaborators, in the order it makes them: the
  permission request, the picker, a notice (\<^verbatim>\<open>Alert.alert\<close> with title and message), the
  object store (upload of path, bytes and content type; public URL of a path), the
  record store and the navigation.
\<close>

datatype event =
  RequestPermission
| LaunchPicker
| Alert string string
| Upload string "nat list" string
| GetPublicUrl string
| Upsert payload
| GoBack

text \<open>
  The collaborators' answers during one invocation: whether the permission is granted, what
  the picker returns, the clock, the base64 decoder, and the answers of the stores as
  functions of the arguments they are called with.
\<close>

record env =
  granted :: bool
  picker :: picker_result
  now :: int
  decode :: "string \<Rightarrow> nat list"
  upload :: "string \<Rightarrow> nat list \<Rightarrow> string \<Rightarrow> response"
  getPublicUrl :: "string \<Rightarrow> string"
  upsert :: "payload \<Rightarrow> response"

section \<open>The notices\<close>

definition msg_permission_title :: string where
  "msg_permission_title = ''Permiss'' @ [char_of (0xE3 :: nat)] @ ''o necess'' @ [char_of (0xE1 :: nat)] @ ''ria''"

definition msg_permission_body :: string where
  "msg_permission_body =
     ''Precisamos de acesso '' @ [char_of (0xE0 :: nat)] @ '' sua galeria para adicionar m''
       @ [char_of (0xED :: nat)] @ ''dia.''"

definition msg_upload_failed :: string where
  "msg_upload_failed = ''Falha ao fazer upload da m'' @ [char_of (0xED :: nat)] @ ''dia''"

definition msg_unidentified :: string where
  "msg_unidentified = ''Usu'' @ [char_of (0xE1 :: nat)] @ ''rio n'' @ [char_of (0xE3 :: nat)] @ ''o identificado''"

definition msg_empty_note :: string where
  "msg_empty_note =
     ''Adicione um t'' @ [char_of (0xED :: nat)] @ ''tulo ou conte'' @ [char_of (0xFA :: nat)]
       @ ''do para salvar''"

definition msg_save_failed :: string where
  "msg_save_failed =
     ''Falha ao salvar a anota'' @ [char_of (0xE7 :: nat), char_of (0xE3 :: nat)] @ ''o''"

section \<open>Picking and uploading media\<close>

text \<open>
  \<^verbatim>\<open>asset.fileName?.split(".").pop() || (asset.type === "video" ? "mp4" : "png")\<close>
\<close>

definition fileExt :: "asset \<Rightarrow> string" where
  "fileExt a =
     or_else
       (case asset_fileName a of
          None \<Rightarrow> None
        | Some fn \<Rightarrow> js_pop (js_split CHR ''.'' fn))
       (if asset_type a = Some ''video'' then ''mp4'' else ''png'')"

text \<open>\<^verbatim>\<open>`${userId}_${Date.now()}.${fileExt}`\<close>: the storage key.\<close>

definition fileName :: "string \<Rightarrow> int \<Rightarrow> asset \<Rightarrow> string" where
  "fileName uid t a = uid @ ''_'' @ number_to_string t @ ''.'' @ fileExt a"

text \<open>\<^verbatim>\<open>asset.mimeType || (asset.type === "video" ? "video/mp4" : "image/png")\<close>\<close>

definition mimeType :: "asset \<Rightarrow> string" where
  "mimeType a =
     or_else (asset_mimeType a)
       (if asset_type a = Some ''video'' then ''video/mp4'' else ''image/png'')"

text \<open>
  \<^verbatim>\<open>pickMedia\<close>. The function returns the state after the handler and the calls made.
  Inside the \<^verbatim>\<open>try\<close> block an exception (no first asset, no base64 text to decode, a
  rejected upload) reaches the \<^verbatim>\<open>catch\<close>, which shows the generic notice; the
  \<^verbatim>\<open>finally\<close> clears \<open>loading\<close> on every path through the block.
\<close>

definition pickMedia :: "env \<Rightarrow> screen \<Rightarrow> screen \<times> event list" where
  "pickMedia e s =
     (if \<not> granted e then
        (s, [RequestPermission, Alert msg_permission_title msg_permission_body])
      else
        (case picker e of
           Canceled \<Rightarrow> (s, [RequestPermission, LaunchPicker])
         | Picked assets \<Rightarrow>
             (case userId s of
                None \<Rightarrow> (s, [RequestPermission, LaunchPicker])
              | Some uid \<Rightarrow>
                  if uid = [] then (s, [RequestPermission, LaunchPicker])
                  else
                    (case assets of
                       [] \<Rightarrow>
                         (s\<lparr>loading := False\<rparr>,
                          [RequestPermission, LaunchPicker, Alert ''Erro'' msg_upload_failed])
                     | a # rest \<Rightarrow>
                         (let path = ''entries/'' @ fileName uid (now e) a in
                          case asset_base64 a of
                            None \<Rightarrow>
                              (s\<lparr>loading := False\<rparr>,
                               [RequestPermission, LaunchPicker, Alert ''Erro'' msg_upload_failed])
                          | Some b \<Rightarrow>
                              (case upload e path (decode e b) (mimeType a) of
                                 Failure m \<Rightarrow>
                                   (s\<lparr>loading := False\<rparr>,
                                    [RequestPermission, LaunchPicker,
                                     Upload path (decode e b) (mimeType a), Alert ''Erro'' m])
                               | Throws \<Rightarrow>
                                   (s\<lparr>loading := False\<rparr>,
                                    [RequestPermission, LaunchPicker,
                                     Upload path (decode e b) (mimeType a),
                                     Alert ''Erro'' msg_upload_failed])
                               | Success \<Rightarrow>
                                   (s\<lparr>media := Some (getPublicUrl e path), loading := False\<rparr>,
                                    [RequestPermission, LaunchPicker,
                                     Upload path (decode e b) (mimeType a),
                                     GetPublicUrl path])))))))"

text \<open>\<^verbatim>\<open>removeMedia\<close>: \<^verbatim>\<open>setMedia(null)\<close> and nothing else.\<close>

definition removeMedia :: "screen \<Rightarrow> screen \<times> event list" where
  "removeMedia s = (s\<lparr>media := None\<rparr>, [])"

section \<open>Saving the entry\<close>

text \<open>
  \<^verbatim>\<open>saveEntry\<close>: the identity guard, the empty-note guard, then the upsert of the payload
  inside a \<^verbatim>\<open>try\<close> block whose \<^verbatim>\<open>finally\<close> clears \<open>loading\<close>.
\<close>

definition saveEntry :: "env \<Rightarrow> screen \<Rightarrow> screen \<times> event list" where
  "saveEntry e s =
     (case userId s of
        None \<Rightarrow> (s, [Alert ''Erro'' msg_unidentified])
      | Some uid \<Rightarrow>
          if uid = [] then (s, [Alert ''Erro'' msg_unidentified])
          else if js_trim (title s) = [] \<and> js_trim (content s) = [] then
            (s, [Alert ''Aviso'' msg_empty_note])
          else
            (let p = \<lparr>payload_id = editingEntry_id s, user_id = uid,
                      payload_title = js_trim (title s),
                      payload_content = js_trim (content s),
                      media_url = media s\<rparr>
             in case upsert e p of
                  Failure m \<Rightarrow> (s\<lparr>loading := False\<rparr>, [Upsert p, Alert ''Erro'' m])
                | Success \<Rightarrow> (s\<lparr>loading := False\<rparr>, [Upsert p, GoBack])
                | Throws \<Rightarrow> (s\<lparr>loading := False\<rparr>, [Upsert p, Alert ''Erro'' msg_save_failed])))"

section \<open>Sample inputs\<close>

text \<open>Concrete assets, collaborators and screen states on which the theorems are instantiated.\<close>

definition asset_photo :: asset where
  "asset_photo =
     \<lparr>asset_fileName = Some ''IMG_0001.jpg'', asset_type = Some ''image'',
      asset_mimeType = Some ''image/jpeg'', asset_base64 = Some ''aGk=''\<rparr>"

definition asset_bare_video :: asset where
  "asset_bare_video =
     \<lparr>asset_fileName = None, asset_type = Some ''video'',
      asset_mimeType = None, asset_base64 = Some ''aGk=''\<rparr>"

definition asset_bare_image :: asset where
  "asset_bare_image =
     \<lparr>asset_fileName = None, asset_type = Some ''image'',
      asset_mimeType = None, asset_base64 = Some ''aGk=''\<rparr>"

definition asset_no_dot :: asset where
  "asset_no_dot =
     \<lparr>asset_fileName = Some ''snapshot'', asset_type = Some ''image'',
      asset_mimeType = None, asset_base64 = Some ''aGk=''\<rparr>"

definition asset_empty_name :: asset where
  "asset_empty_name =
     \<lparr>asset_fileName = Some [], asset_type = Some ''image'',
      asset_mimeType = None, asset_base64 = Some ''aGk=''\<rparr>"

definition env_ok :: env where
  "env_ok =
     \<lparr>granted = True, picker = Picked [asset_photo], now = 1700000000123,
      decode = map of_char, upload = (\<lambda>path bytes mime. Success),
      getPublicUrl = (\<lambda>path. ''https://cdn.example/'' @ path),
      upsert = (\<lambda>p. Success)\<rparr>"

definition env_upload_fails :: env where
  "env_upload_fails = env_ok\<lparr>upload := (\<lambda>path bytes mime. Failure ''quota exceeded'')\<rparr>"

definition screen_groceries :: screen where
  "screen_groceries =
     \<lparr>editingEntry_id = None, title = ''  Groceries '', content = [],
      media = Some ''https://cdn.example/entries/old.png'', userId = Some ''u1'',
      loading = False\<rparr>"

definition screen_anonymous :: screen where
  "screen_anonymous = screen_groceries\<lparr>userId := None\<rparr>"

definition screen_blank :: screen where
  "screen_blank = screen_groceries\<lparr>title := ''   '', content := []\<rparr>"

definition screen_blank_anonymous :: screen where
  "screen_blank_anonymous = screen_blank\<lparr>userId := None\<rparr>"

section \<open>Splitting at a separator\<close>

lemma js_split_nonempty: "js_split c s \<noteq> []"
  by (induction s) (auto simp: Let_def)

lemma js_split_no_sep: "c \<notin> set s \<Longrightarrow> js_split c s = [s]"
  by (induction s) (auto simp: Let_def)

lemma length_js_split: "length (js_split c s) = Suc (length (filter (\<lambda>x. x = c) s))"
proof (induction s)
  case Nil
  then show ?case by simp
next
  case (Cons x xs)
  have "js_split c xs \<noteq> []" by (rule js_split_nonempty)
  then obtain p ps where "js_split c xs = p # ps" by (cases "js_split c xs") auto
  with Cons show ?case by (auto simp: Let_def)
qed

lemma takeWhile_neq_append:
  "c \<notin> set xs \<Longrightarrow> takeWhile (\<lambda>x. x \<noteq> c) (xs @ ys) = xs @ takeWhile (\<lambda>x. x \<noteq> c) ys"
  by (induction xs) auto

lemma takeWhile_neq_hit:
  "c \<in> set xs \<Longrightarrow> takeWhile (\<lambda>x. x \<noteq> c) (xs @ ys) = takeWhile (\<lambda>x. x \<noteq> c) xs"
  by (induction xs) auto

text \<open>The last piece is what follows the last separator.\<close>

lemma last_js_split: "last (js_split c s) = rev (takeWhile (\<lambda>x. x \<noteq> c) (rev s))"
proof (induction s)
  case Nil
  then show ?case by simp
next
  case (Cons x xs)
  obtain p ps where r: "js_split c xs = p # ps"
    using js_split_nonempty [of c xs] by (cases "js_split c xs") auto
  show ?case
  proof (cases "c \<in> set xs")
    case True
    then have "filter (\<lambda>x. x = c) xs \<noteq> []"
      by (auto simp: filter_empty_conv)
    then have "ps \<noteq> []"
      using length_js_split [of c xs] r by auto
    with Cons r True show ?thesis
      by (simp add: Let_def takeWhile_neq_hit)
  next
    case False
    then have "js_split c xs = [xs]" by (rule js_split_no_sep)
    with False show ?thesis
      by (simp add: Let_def takeWhile_neq_append)
  qed
qed

lemma last_js_split_append:
  "c \<notin> set ext \<Longrightarrow> last (js_split c (base @ c # ext)) = ext"
  by (simp add: last_js_split takeWhile_neq_append)

lemma last_js_split_no_sep: "c \<notin> set (last (js_split c s))"
  using set_takeWhileD [of c "\<lambda>x. x \<noteq> c" "rev s"] by (auto simp: last_js_split)

lemma js_pop_js_split: "js_pop (js_split c s) = Some (last (js_split c s))"
  using js_split_nonempty [of c s] by (cases "js_split c s") auto

section \<open>The extension\<close>

lemma fileExt_absent:
  "asset_fileName a = None \<Longrightarrow>
     fileExt a = (if asset_type a = Some ''video'' then ''mp4'' else ''png'')"
  by (simp add: fileExt_def)

lemma fileExt_present:
  "asset_fileName a = Some fn \<Longrightarrow>
     fileExt a =
       (if last (js_split CHR ''.'' fn) = []
        then (if asset_type a = Some ''video'' then ''mp4'' else ''png'')
        else last (js_split CHR ''.'' fn))"
  by (simp add: fileExt_def js_pop_js_split)

lemma fileExt_no_dot: "CHR ''.'' \<notin> set (fileExt a)"
proof (cases "asset_fileName a")
  case None
  then show ?thesis by (simp add: fileExt_absent)
next
  case (Some fn)
  then show ?thesis
    using last_js_split_no_sep [of "CHR ''.''" fn] by (simp add: fileExt_present)
qed

lemma append_sep_cancel:
  assumes "xs @ c # e1 = ys @ c # e2" and "c \<notin> set e1" and "c \<notin> set e2"
  shows "xs = ys \<and> e1 = e2"
proof -
  from assms(1) have "rev (xs @ c # e1) = rev (ys @ c # e2)" by simp
  then have r: "rev e1 @ c # rev xs = rev e2 @ c # rev ys" by simp
  from assms(2) have t1: "takeWhile (\<lambda>x. x \<noteq> c) (rev e1 @ c # rev xs) = rev e1"
    by (simp add: takeWhile_neq_append)
  from assms(3) have t2: "takeWhile (\<lambda>x. x \<noteq> c) (rev e2 @ c # rev ys) = rev e2"
    by (simp add: takeWhile_neq_append)
  from r t1 t2 have "rev e1 = rev e2" by simp
  then have e: "e1 = e2" by simp
  with assms(1) show ?thesis by simp
qed

section \<open>Trimming\<close>

lemma rev_dropWhile_takeWhile:
  "xs = rev (dropWhile P (rev xs)) @ rev (takeWhile P (rev xs))"
proof -
  have "rev xs = takeWhile P (rev xs) @ dropWhile P (rev xs)" by simp
  from arg_cong [OF this, of rev] show ?thesis
    by (simp only: rev_rev_ident rev_append)
qed

lemma js_trim_Nil: "js_trim [] = []"
  by (simp add: js_trim_def)

text \<open>Trimming removes a run of white space at each end and nothing else.\<close>

lemma js_trim_decomp:
  "\<exists>pre suf. s = pre @ js_trim s @ suf \<and> (\<forall>c \<in> set pre. is_ws c) \<and> (\<forall>c \<in> set suf. is_ws c)"
proof -
  let ?u = "dropWhile is_ws s"
  let ?pre = "takeWhile is_ws s"
  let ?suf = "rev (takeWhile is_ws (rev ?u))"
  have "?u = rev (dropWhile is_ws (rev ?u)) @ ?suf"
    by (rule rev_dropWhile_takeWhile)
  then have u: "?u = js_trim s @ ?suf"
    by (simp only: js_trim_def)
  have "s = ?pre @ ?u" by (simp only: takeWhile_dropWhile_id)
  with u have "s = ?pre @ js_trim s @ ?suf" by simp
  moreover have "\<forall>c \<in> set ?pre. is_ws c" by (auto dest: set_takeWhileD)
  moreover have "\<forall>c \<in> set ?suf. is_ws c" by (auto dest: set_takeWhileD)
  ultimately show ?thesis by blast
qed

text \<open>What is left neither starts nor ends with white space.\<close>

lemma js_trim_edges:
  assumes "js_trim s \<noteq> []"
  shows "\<not> is_ws (hd (js_trim s)) \<and> \<not> is_ws (last (js_trim s))"
proof -
  let ?u = "dropWhile is_ws s"
  let ?v = "dropWhile is_ws (rev ?u)"
  have t: "js_trim s = rev ?v" by (simp add: js_trim_def)
  with assms have v: "?v \<noteq> []" by simp
  then have l: "\<not> is_ws (hd ?v)" by (rule hd_dropWhile)
  from v have "last (rev ?v) = hd ?v" by (simp add: last_rev)
  with l t have last_ok: "\<not> is_ws (last (js_trim s))" by simp
  have u: "?u = rev ?v @ rev (takeWhile is_ws (rev ?u))"
    by (rule rev_dropWhile_takeWhile)
  from v have rv: "rev ?v \<noteq> []" by simp
  from u rv have un: "?u \<noteq> []" by (metis append_is_Nil_conv)
  from u rv have "hd ?u = hd (rev ?v)" by (metis hd_append2)
  moreover from un have "\<not> is_ws (hd ?u)" by (rule hd_dropWhile)
  ultimately have "\<not> is_ws (hd (js_trim s))" using t by simp
  with last_ok show ?thesis by simp
qed

lemma js_trim_idem: "js_trim (js_trim s) = js_trim s"
proof (cases "js_trim s = []")
  case True
  then show ?thesis using js_trim_Nil by simp
next
  case False
  from js_trim_edges [OF False] have h: "\<not> is_ws (hd (js_trim s))" and l: "\<not> is_ws (last (js_trim s))"
    by simp_all
  from False h have a: "dropWhile is_ws (js_trim s) = js_trim s"
    by (cases "js_trim s") auto
  from False l have "\<not> is_ws (hd (rev (js_trim s)))" by (simp add: hd_rev)
  with False have b: "dropWhile is_ws (rev (js_trim s)) = rev (js_trim s)"
    by (cases "rev (js_trim s)") auto
  have "js_trim (js_trim s) = rev (dropWhile is_ws (rev (dropWhile is_ws (js_trim s))))"
    by (simp only: js_trim_def)
  with a b show ?thesis by simp
qed

section \<open>Evaluation of the samples\<close>

lemma now_text: "number_to_string 1700000000123 = ''1700000000123''"
  by (simp add: number_to_string_def nat_to_string.simps digit_char_def)

lemma fileExt_asset_photo: "fileExt asset_photo = ''jpg''"
  by code_simp

lemma mimeType_asset_photo: "mimeType asset_photo = ''image/jpeg''"
  by code_simp

lemma fileName_asset_photo:
  "fileName uid 1700000000123 asset_photo = uid @ ''_1700000000123.jpg''"
  by (simp add: fileName_def now_text fileExt_asset_photo)

lemma js_trim_title_sample: "js_trim ''  Groceries '' = ''Groceries''"
  by code_simp

lemma js_trim_blank_sample: "js_trim ''   '' = []"
  by code_simp

lemma last_split_snapshot: "last (js_split CHR ''.'' ''snapshot'') = ''snapshot''"
  by code_simp

section \<open>Traces of the handlers\<close>

text \<open>The path of \<^verbatim>\<open>pickMedia\<close> on which the upload answers with an error.\<close>

lemma pickMedia_failure_trace:
  assumes "granted e" and "picker e = Picked (a # rest)"
    and "userId s = Some uid" and "uid \<noteq> []"
    and "asset_base64 a = Some b"
    and "upload e (''entries/'' @ fileName uid (now e) a) (decode e b) (mimeType a) = Failure m"
  shows "pickMedia e s =
           (s\<lparr>loading := False\<rparr>,
            [RequestPermission, LaunchPicker,
             Upload (''entries/'' @ fileName uid (now e) a) (decode e b) (mimeType a),
             Alert ''Erro'' m])"
  using assms by (simp add: pickMedia_def Let_def)

text \<open>The path of \<^verbatim>\<open>saveEntry\<close> on which the upsert answers without error.\<close>

lemma saveEntry_success_trace:
  assumes "userId s = Some uid" and "uid \<noteq> []"
    and "\<not> (js_trim (title s) = [] \<and> js_trim (content s) = [])"
    and "upsert e \<lparr>payload_id = editingEntry_id s, user_id = uid,
                   payload_title = js_trim (title s), payload_content = js_trim (content s),
                   media_url = media s\<rparr> = Success"
  shows "saveEntry e s =
           (s\<lparr>loading := False\<rparr>,
            [Upsert \<lparr>payload_id = editingEntry_id s, user_id = uid,
                    payload_title = js_trim (title s), payload_content = js_trim (content s),
                    media_url = media s\<rparr>, GoBack])"
  using assms by (auto simp: saveEntry_def Let_def)

section \<open>The storage key\<close>

text \<open>
  Claim C1. Two different owner ids give different storage keys at the same capture
  time, whatever the picked assets are (the same asset in particular): the extension holds
  no dot, so the key splits at its last dot into the owner part and the extension.
\<close>

theorem fileName_injective_owner:
  "o1 \<noteq> o2 \<Longrightarrow> fileName o1 t a1 \<noteq> fileName o2 t a2"
proof
  assume neq: "o1 \<noteq> o2" and eq: "fileName o1 t a1 = fileName o2 t a2"
  let ?T = "CHR ''_'' # number_to_string t"
  have k1: "fileName o1 t a1 = (o1 @ ?T) @ CHR ''.'' # fileExt a1"
    by (simp add: fileName_def)
  have k2: "fileName o2 t a2 = (o2 @ ?T) @ CHR ''.'' # fileExt a2"
    by (simp add: fileName_def)
  note e = eq [unfolded k1 k2]
  have "o1 @ ?T = o2 @ ?T \<and> fileExt a1 = fileExt a2"
    by (rule append_sep_cancel [OF e fileExt_no_dot fileExt_no_dot])
  then have "o1 @ ?T = o2 @ ?T" by (rule conjunct1)
  then have "o1 = o2" by (simp only: append_same_eq)
  with neq show False by contradiction
qed

theorem fileName_injective_owner_witness:
  "''u1'' \<noteq> ''u2'' \<and>
   fileName ''u1'' 1700000000123 asset_photo = ''u1_1700000000123.jpg'' \<and>
   fileName ''u2'' 1700000000123 asset_photo = ''u2_1700000000123.jpg'' \<and>
   fileName ''u1'' 1700000000123 asset_photo \<noteq> fileName ''u2'' 1700000000123 asset_photo"
proof -
  have h: "''u1'' \<noteq> ''u2''" by simp
  show ?thesis
    using h fileName_injective_owner [OF h, of 1700000000123 asset_photo asset_photo]
    by (simp add: fileName_asset_photo)
qed

text \<open>
  Claim C5. A file name that ends in a dot followed by a non-empty extension (the text
  after its last dot) hands that extension over unchanged: it is the derived extension, and
  the storage key ends in the dot and that extension.
\<close>

theorem fileExt_preserves_extension:
  assumes "asset_fileName a = Some (base @ ''.'' @ ext)"
    and "ext \<noteq> []" and "CHR ''.'' \<notin> set ext"
  shows "fileExt a = ext \<and>
         fileName uid t a = uid @ ''_'' @ number_to_string t @ ''.'' @ ext"
proof -
  have "last (js_split CHR ''.'' (base @ CHR ''.'' # ext)) = ext"
    using assms(3) by (rule last_js_split_append)
  with assms(1,2) have "fileExt a = ext"
    by (simp add: fileExt_present)
  then show ?thesis by (simp add: fileName_def)
qed

theorem fileExt_preserves_extension_witness:
  "asset_fileName asset_photo = Some (''IMG_0001'' @ ''.'' @ ''jpg'') \<and>
   ''jpg'' \<noteq> [] \<and> CHR ''.'' \<notin> set ''jpg'' \<and>
   fileExt asset_photo = ''jpg'' \<and>
   fileName ''u1'' 42 asset_photo = ''u1_'' @ number_to_string 42 @ ''.jpg''"
proof -
  have f: "asset_fileName asset_photo = Some (''IMG_0001'' @ ''.'' @ ''jpg'')"
    by (simp add: asset_photo_def)
  have n: "''jpg'' \<noteq> []" by simp
  have d: "CHR ''.'' \<notin> set ''jpg''" by simp
  show ?thesis
    using f n d fileExt_preserves_extension [OF f n d, of "''u1''" 42] by simp
qed

text \<open>
  Claim C6. Without a file name the extension is \<open>mp4\<close> for a video and \<open>png\<close>
  otherwise; without a declared MIME type the content type is \<open>video/mp4\<close> for a video
  and \<open>image/png\<close> otherwise.
\<close>

theorem fallback_resolution:
  "(asset_fileName a = None \<longrightarrow>
      fileExt a = (if asset_type a = Some ''video'' then ''mp4'' else ''png'')) \<and>
   (asset_mimeType a = None \<longrightarrow>
      mimeType a = (if asset_type a = Some ''video'' then ''video/mp4'' else ''image/png''))"
  by (simp add: fileExt_def mimeType_def)

theorem fallback_resolution_witness:
  "asset_fileName asset_bare_video = None \<and> asset_mimeType asset_bare_video = None \<and>
   fileExt asset_bare_video = ''mp4'' \<and> mimeType asset_bare_video = ''video/mp4'' \<and>
   asset_fileName asset_bare_image = None \<and> asset_mimeType asset_bare_image = None \<and>
   fileExt asset_bare_image = ''png'' \<and> mimeType asset_bare_image = ''image/png''"
  using fallback_resolution [of asset_bare_video] fallback_resolution [of asset_bare_image]
  by (simp add: asset_bare_video_def asset_bare_image_def)

text \<open>
  Claim C9, amended. A file name that is present, not empty and without a dot is the
  derived extension as a whole. In general the extension is the last piece of the file
  name between dots when that piece is not empty, and the fallback by kind exactly when
  the file name is absent or that last piece is empty.
\<close>

theorem fileExt_resolution:
  "(asset_fileName a = Some fn \<and> fn \<noteq> [] \<and> CHR ''.'' \<notin> set fn \<longrightarrow> fileExt a = fn) \<and>
   (asset_fileName a = Some fn \<and> last (js_split CHR ''.'' fn) \<noteq> [] \<longrightarrow>
      fileExt a = last (js_split CHR ''.'' fn)) \<and>
   (asset_fileName a = None \<or> asset_fileName a = Some fn \<and> last (js_split CHR ''.'' fn) = [] \<longrightarrow>
      fileExt a = (if asset_type a = Some ''video'' then ''mp4'' else ''png''))"
proof (intro conjI impI)
  assume "asset_fileName a = Some fn \<and> fn \<noteq> [] \<and> CHR ''.'' \<notin> set fn"
  then show "fileExt a = fn"
    by (simp add: fileExt_present js_split_no_sep)
next
  assume "asset_fileName a = Some fn \<and> last (js_split CHR ''.'' fn) \<noteq> []"
  then show "fileExt a = last (js_split CHR ''.'' fn)"
    by (simp add: fileExt_present)
next
  assume "asset_fileName a = None \<or> asset_fileName a = Some fn \<and> last (js_split CHR ''.'' fn) = []"
  then show "fileExt a = (if asset_type a = Some ''video'' then ''mp4'' else ''png'')"
    by (auto simp: fileExt_absent fileExt_present)
qed

theorem fileExt_resolution_witness:
  "asset_fileName asset_no_dot = Some ''snapshot'' \<and> ''snapshot'' \<noteq> [] \<and>
   CHR ''.'' \<notin> set ''snapshot'' \<and> last (js_split CHR ''.'' ''snapshot'') \<noteq> [] \<and>
   fileExt asset_no_dot = ''snapshot'' \<and>
   asset_fileName asset_empty_name = Some [] \<and> last (js_split CHR ''.'' []) = [] \<and>
   fileExt asset_empty_name = ''png''"
proof -
  have f: "asset_fileName asset_no_dot = Some ''snapshot''"
    by (simp add: asset_no_dot_def)
  have g: "asset_fileName asset_empty_name = Some []"
    by (simp add: asset_empty_name_def)
  have t: "asset_type asset_empty_name = Some ''image''"
    by (simp add: asset_empty_name_def)
  show ?thesis
    using f g fileExt_resolution [of asset_no_dot "''snapshot''"]
      fileExt_resolution [of asset_empty_name "[]"]
    by (simp add: t last_split_snapshot)
qed

text \<open>
  The file name may be present and empty: it holds no dot, its only piece is empty, and
  the extension is then the fallback, not the (empty) file name.
\<close>

theorem fileExt_empty_name_counterexample:
  "asset_fileName asset_empty_name = Some [] \<and> CHR ''.'' \<notin> set [] \<and>
   fileExt asset_empty_name = ''png'' \<and> fileExt asset_empty_name \<noteq> []"
  by (simp add: asset_empty_name_def fileExt_def)

section \<open>The upload pipeline\<close>

text \<open>
  Claim C3. Whenever \<^verbatim>\<open>pickMedia\<close> calls the upload and the store answers that call
  with an error, the handler stops there: the media reference of the draft keeps its
  value, and the calls made are the permission request, the picker, that one upload (no
  second attempt) and the notice carrying the store's message as it is; the public URL is
  not asked for and the record store is not called.
\<close>

theorem pickMedia_upload_error:
  assumes "Upload p bs mt \<in> set (snd (pickMedia e s))" and "upload e p bs mt = Failure m"
  shows "pickMedia e s =
           (s\<lparr>loading := False\<rparr>,
            [RequestPermission, LaunchPicker, Upload p bs mt, Alert ''Erro'' m]) \<and>
         media (fst (pickMedia e s)) = media s \<and>
         (\<forall>q. GetPublicUrl q \<notin> set (snd (pickMedia e s))) \<and>
         (\<forall>q. Upsert q \<notin> set (snd (pickMedia e s)))"
  using assms
  by (auto simp: pickMedia_def Let_def
      split: if_splits picker_result.splits option.splits list.splits response.splits)

theorem pickMedia_upload_error_witness:
  "Upload ''entries/u1_1700000000123.jpg'' (map of_char ''aGk='') ''image/jpeg''
     \<in> set (snd (pickMedia env_upload_fails screen_groceries)) \<and>
   upload env_upload_fails ''entries/u1_1700000000123.jpg'' (map of_char ''aGk='') ''image/jpeg''
     = Failure ''quota exceeded'' \<and>
   pickMedia env_upload_fails screen_groceries =
     (screen_groceries\<lparr>loading := False\<rparr>,
      [RequestPermission, LaunchPicker,
       Upload ''entries/u1_1700000000123.jpg'' (map of_char ''aGk='') ''image/jpeg'',
       Alert ''Erro'' ''quota exceeded'']) \<and>
   media (fst (pickMedia env_upload_fails screen_groceries)) =
     Some ''https://cdn.example/entries/old.png''"
proof -
  let ?p = "''entries/u1_1700000000123.jpg''"
  let ?bs = "map of_char ''aGk='' :: nat list"
  have g: "granted env_upload_fails"
    by (simp add: env_upload_fails_def env_ok_def)
  have p: "picker env_upload_fails = Picked (asset_photo # [])"
    by (simp add: env_upload_fails_def env_ok_def)
  have u: "userId screen_groceries = Some ''u1''"
    by (simp add: screen_groceries_def)
  have n: "''u1'' \<noteq> []" by simp
  have b: "asset_base64 asset_photo = Some ''aGk=''"
    by (simp add: asset_photo_def)
  have f: "upload env_upload_fails
             (''entries/'' @ fileName ''u1'' (now env_upload_fails) asset_photo)
             (decode env_upload_fails ''aGk='') (mimeType asset_photo) = Failure ''quota exceeded''"
    by (simp add: env_upload_fails_def env_ok_def)
  have t: "now env_upload_fails = 1700000000123"
    by (simp add: env_upload_fails_def env_ok_def)
  have d: "decode env_upload_fails = map of_char"
    by (simp add: env_upload_fails_def env_ok_def)
  have path: "''entries/'' @ fileName ''u1'' (now env_upload_fails) asset_photo = ?p"
    by (simp add: t fileName_asset_photo)
  have tr: "pickMedia env_upload_fails screen_groceries =
     (screen_groceries\<lparr>loading := False\<rparr>,
      [RequestPermission, LaunchPicker, Upload ?p ?bs ''image/jpeg'',
       Alert ''Erro'' ''quota exceeded''])"
    using pickMedia_failure_trace [OF g p u n b f]
    by (simp only: path d mimeType_asset_photo)
  have mem: "Upload ?p ?bs ''image/jpeg'' \<in> set (snd (pickMedia env_upload_fails screen_groceries))"
    by (simp only: tr snd_conv list.set insert_iff simp_thms)
  have err: "upload env_upload_fails ?p ?bs ''image/jpeg'' = Failure ''quota exceeded''"
    by (simp add: env_upload_fails_def env_ok_def)
  have m: "media screen_groceries = Some ''https://cdn.example/entries/old.png''"
    by (simp add: screen_groceries_def)
  from pickMedia_upload_error [OF mem err]
  have "media (fst (pickMedia env_upload_fails screen_groceries)) = media screen_groceries"
    by (rule conjunct2 [THEN conjunct1])
  with mem err tr m show ?thesis by (simp only: simp_thms)
qed

text \<open>
  Claim C8. With the permission granted and an asset picked, but no user id resolved,
  \<^verbatim>\<open>pickMedia\<close> leaves the state as it is and makes no call after the picker: no
  upload, no public URL, no notice.
\<close>

theorem pickMedia_no_identity:
  "granted e \<Longrightarrow> picker e = Picked assets \<Longrightarrow> userId s = None \<Longrightarrow>
     pickMedia e s = (s, [RequestPermission, LaunchPicker])"
  by (simp add: pickMedia_def)

theorem pickMedia_no_identity_witness:
  "granted env_ok \<and> picker env_ok = Picked [asset_photo] \<and> userId screen_anonymous = None \<and>
   pickMedia env_ok screen_anonymous = (screen_anonymous, [RequestPermission, LaunchPicker])"
proof -
  have g: "granted env_ok" by (simp add: env_ok_def)
  have p: "picker env_ok = Picked [asset_photo]" by (simp add: env_ok_def)
  have u: "userId screen_anonymous = None" by (simp add: screen_anonymous_def)
  show ?thesis
    using g p u pickMedia_no_identity [OF g p u] by simp
qed

text \<open>
  Claim C7. \<^verbatim>\<open>removeMedia\<close> sets the media reference to null, leaves every other field
  of the state as it is and calls no collaborator, the object store in particular.
\<close>

theorem removeMedia_frame:
  "fst (removeMedia s) = s\<lparr>media := None\<rparr> \<and>
   media (fst (removeMedia s)) = None \<and>
   editingEntry_id (fst (removeMedia s)) = editingEntry_id s \<and>
   title (fst (removeMedia s)) = title s \<and>
   content (fst (removeMedia s)) = content s \<and>
   userId (fst (removeMedia s)) = userId s \<and>
   loading (fst (removeMedia s)) = loading s \<and>
   snd (removeMedia s) = []"
  by (simp add: removeMedia_def)

section \<open>Saving\<close>

text \<open>
  Claim C2, amended. When title and content are both blank after trimming, \<^verbatim>\<open>saveEntry\<close>
  calls no collaborator but the notice and leaves the state as it is; the notice is the
  validation notice when the user id is resolved, and the authentication notice when it
  is not, since the identity guard comes first.
\<close>

theorem saveEntry_blank_rejected:
  assumes "js_trim (title s) = []" and "js_trim (content s) = []"
  shows "saveEntry e s =
           (s, [if truthy (userId s) then Alert ''Aviso'' msg_empty_note
                else Alert ''Erro'' msg_unidentified]) \<and>
         (\<forall>p. Upsert p \<notin> set (snd (saveEntry e s)))"
  using assms by (cases "userId s") (simp_all add: saveEntry_def)

theorem saveEntry_blank_rejected_witness:
  "js_trim (title screen_blank) = [] \<and> js_trim (content screen_blank) = [] \<and>
   truthy (userId screen_blank) \<and>
   saveEntry env_ok screen_blank = (screen_blank, [Alert ''Aviso'' msg_empty_note]) \<and>
   (\<forall>p. Upsert p \<notin> set (snd (saveEntry env_ok screen_blank)))"
proof -
  have t: "js_trim (title screen_blank) = []"
    by (simp add: screen_blank_def screen_groceries_def js_trim_blank_sample)
  have c: "js_trim (content screen_blank) = []"
    by (simp add: screen_blank_def screen_groceries_def js_trim_Nil)
  have u: "truthy (userId screen_blank)"
    by (simp add: screen_blank_def screen_groceries_def)
  show ?thesis
    using t c u saveEntry_blank_rejected [OF t c, of env_ok] by simp
qed

text \<open>
  A blank note saved with no user id resolved gets the authentication notice and no
  validation notice.
\<close>

theorem saveEntry_blank_counterexample:
  "js_trim (title screen_blank_anonymous) = [] \<and>
   js_trim (content screen_blank_anonymous) = [] \<and>
   saveEntry env_ok screen_blank_anonymous =
     (screen_blank_anonymous, [Alert ''Erro'' msg_unidentified]) \<and>
   Alert ''Aviso'' msg_empty_note \<notin> set (snd (saveEntry env_ok screen_blank_anonymous))"
  by (simp add: saveEntry_def screen_blank_anonymous_def screen_blank_def
      screen_groceries_def js_trim_blank_sample js_trim_Nil)

text \<open>
  Claim C4. With a non-empty title and no user id, \<^verbatim>\<open>saveEntry\<close> shows the
  authentication notice and does not call the record store.
\<close>

theorem saveEntry_no_identity:
  "title s \<noteq> [] \<Longrightarrow> userId s = None \<Longrightarrow>
     saveEntry e s = (s, [Alert ''Erro'' msg_unidentified]) \<and>
     (\<forall>p. Upsert p \<notin> set (snd (saveEntry e s)))"
  by (simp add: saveEntry_def)

theorem saveEntry_no_identity_witness:
  "title screen_anonymous \<noteq> [] \<and> userId screen_anonymous = None \<and>
   saveEntry env_ok screen_anonymous = (screen_anonymous, [Alert ''Erro'' msg_unidentified])"
proof -
  have t: "title screen_anonymous \<noteq> []"
    by (simp add: screen_anonymous_def screen_groceries_def)
  have u: "userId screen_anonymous = None"
    by (simp add: screen_anonymous_def)
  show ?thesis
    using t u saveEntry_no_identity [OF t u, of env_ok] by simp
qed

text \<open>
  Claim C10. Whenever \<^verbatim>\<open>saveEntry\<close> hands a record to the store and the upsert answers
  without error, that record carries the trimmed title and the trimmed content (see
  \<open>js_trim_decomp\<close> and \<open>js_trim_edges\<close> for what trimming removes), the title and
  content of the draft are as before, and the screen navigates back.
\<close>

theorem saveEntry_success_trims:
  assumes "Upsert p \<in> set (snd (saveEntry e s))" and "upsert e p = Success"
  shows "payload_title p = js_trim (title s) \<and>
         payload_content p = js_trim (content s) \<and>
         title (fst (saveEntry e s)) = title s \<and>
         content (fst (saveEntry e s)) = content s \<and>
         snd (saveEntry e s) = [Upsert p, GoBack]"
  using assms
  by (auto simp: saveEntry_def Let_def split: if_splits option.splits response.splits)

theorem saveEntry_success_trims_witness:
  "Upsert \<lparr>payload_id = None, user_id = ''u1'', payload_title = ''Groceries'',
            payload_content = [],
            media_url = Some ''https://cdn.example/entries/old.png''\<rparr>
     \<in> set (snd (saveEntry env_ok screen_groceries)) \<and>
   upsert env_ok \<lparr>payload_id = None, user_id = ''u1'', payload_title = ''Groceries'',
            payload_content = [],
            media_url = Some ''https://cdn.example/entries/old.png''\<rparr> = Success \<and>
   js_trim (title screen_groceries) = ''Groceries'' \<and>
   js_trim (content screen_groceries) = [] \<and>
   title (fst (saveEntry env_ok screen_groceries)) = ''  Groceries '' \<and>
   content (fst (saveEntry env_ok screen_groceries)) = []"
proof -
  let ?p = "\<lparr>payload_id = None, user_id = ''u1'', payload_title = ''Groceries'',
            payload_content = [],
            media_url = Some ''https://cdn.example/entries/old.png''\<rparr>"
  have u: "userId screen_groceries = Some ''u1''"
    by (simp add: screen_groceries_def)
  have n: "''u1'' \<noteq> []" by simp
  have t: "js_trim (title screen_groceries) = ''Groceries''"
    by (simp add: screen_groceries_def js_trim_title_sample)
  have c: "js_trim (content screen_groceries) = []"
    by (simp add: screen_groceries_def js_trim_Nil)
  from t have b: "\<not> (js_trim (title screen_groceries) = [] \<and> js_trim (content screen_groceries) = [])"
    by simp
  have ok: "upsert env_ok \<lparr>payload_id = editingEntry_id screen_groceries, user_id = ''u1'',
                payload_title = js_trim (title screen_groceries),
                payload_content = js_trim (content screen_groceries),
                media_url = media screen_groceries\<rparr> = Success"
    by (simp add: env_ok_def)
  have f: "editingEntry_id screen_groceries = None"
      "media screen_groceries = Some ''https://cdn.example/entries/old.png''"
      "title screen_groceries = ''  Groceries ''" "content screen_groceries = []"
    by (simp_all add: screen_groceries_def)
  have tr: "saveEntry env_ok screen_groceries = (screen_groceries\<lparr>loading := False\<rparr>, [Upsert ?p, GoBack])"
    using saveEntry_success_trace [OF u n b ok]
    by (simp add: f js_trim_title_sample js_trim_Nil)
  have mem: "Upsert ?p \<in> set (snd (saveEntry env_ok screen_groceries))"
    by (simp add: tr)
  have s: "upsert env_ok ?p = Success"
    by (simp add: env_ok_def)
  show ?thesis
    using mem s t c saveEntry_success_trims [OF mem s] by (simp add: f)
qed

end
